theory Spec2Isabelle
  imports Complex_Main
begin

section \<open>Exceptions\<close>

text \<open>
  Every exception the two modules can raise is a value. A function that may raise returns
  \<open>error + 'a\<close>, with \<open>Inl\<close> for the exception.
\<close>

datatype error =
    TensorForceValueError string
  | KeyError string
  | AssertionError
  | ValueError string

section \<open>Python values\<close>

text \<open>
  The dictionaries built with \<open>dict(...)\<close> hold values of several Python types
  (\<open>predict_horizon_values\<close> is \<open>False\<close> or \<open>'early'\<close>, \<open>baseline_optimizer\<close> is
  \<open>None\<close>, a float or a dictionary), so they are association lists of a value type,
  in the order of the keyword arguments.
\<close>

datatype pyval =
    PNone
  | PBool bool
  | PInt int
  | PFloat real
  | PStr string
  | PDict "(string \<times> pyval) list"

text \<open>\<open>d[key]\<close> on a value, \<open>None\<close> where Python has no such item.\<close>

fun item :: "pyval \<Rightarrow> string \<Rightarrow> pyval option" where
  "item (PDict kvs) key = map_of kvs key"
| "item _ key = None"

text \<open>
  Floating-point numbers are idealised as real numbers, with one extra value for the
  \<open>nan\<close> that \<open>np.mean\<close> gives on an empty sequence. Rounding and the infinities are
  left out.
\<close>

datatype pyfloat = Num real | NaN

fun fadd :: "pyfloat \<Rightarrow> pyfloat \<Rightarrow> pyfloat" where
  "fadd (Num a) (Num b) = Num (a + b)"
| "fadd _ _ = NaN"

fun fneg :: "pyfloat \<Rightarrow> pyfloat" where
  "fneg (Num a) = Num (- a)"
| "fneg NaN = NaN"

fun fsub :: "pyfloat \<Rightarrow> pyfloat \<Rightarrow> pyfloat" where
  "fsub (Num a) (Num b) = Num (a - b)"
| "fsub _ _ = NaN"

fun fdiv :: "pyfloat \<Rightarrow> nat \<Rightarrow> pyfloat" where
  "fdiv (Num a) n = Num (a / real n)"
| "fdiv NaN n = NaN"

fun fmax :: "pyfloat \<Rightarrow> pyfloat \<Rightarrow> pyfloat" where
  "fmax (Num a) (Num b) = Num (max a b)"
| "fmax _ _ = NaN"

text \<open>\<open>np.mean(xs, axis=0)\<close> of a sequence of scalars: \<open>nan\<close> when it is empty.\<close>

definition np_mean :: "pyfloat list \<Rightarrow> pyfloat" where
  "np_mean xs = (if xs = [] then NaN else fdiv (foldr fadd xs (Num 0)) (length xs))"

text \<open>\<open>np.amax(xs, axis=0)\<close>: raises \<open>ValueError\<close> on an empty sequence.\<close>

fun np_amax :: "pyfloat list \<Rightarrow> error + pyfloat" where
  "np_amax [] =
     Inl (ValueError ''zero-size array to reduction operation maximum which has no identity'')"
| "np_amax (x # xs) = Inr (fold fmax xs x)"

text \<open>\<open>int(x)\<close> of a float truncates towards zero.\<close>

definition py_int :: "real \<Rightarrow> int" where
  "py_int x = (if 0 \<le> x then \<lfloor>x\<rfloor> else \<lceil>x\<rceil>)"

text \<open>\<open>round(x)\<close> of a float rounds to the nearest integer, a half to the even one.\<close>

definition py_round :: "real \<Rightarrow> int" where
  "py_round x =
     (let f = \<lfloor>x\<rfloor>; d = x - of_int f
      in if d < 1 / 2 then f
         else if 1 / 2 < d then f + 1
         else if even f then f else f + 1)"

section \<open>The agent registry: \<open>tensorforce/util/agent_util.py\<close>\<close>

text \<open>
  The two agent classes come from \<open>tensorforce.rl_agents\<close> and \<open>Config\<close> from
  \<open>tensorforce.config\<close>; neither module is part of the sources at hand. A class is
  its identity here; its attributes \<open>default_config\<close> and \<open>value_function_ref\<close>, and
  the value function's \<open>default_config\<close>, are parameters of \<open>get_default_config\<close>.
  Calling a class yields the instance of that class holding the two arguments, and
  \<open>Config\<close> wraps its argument.
\<close>

datatype agent_class = RandomAgent | DQNAgent

datatype ('a, 'n) agent = Agent agent_class 'a 'n

datatype 'c Config = Config 'c

definition agents :: "(string \<times> agent_class) list" where
  "agents = [(''RandomAgent'', RandomAgent), (''DQNAgent'', DQNAgent)]"

text \<open>
  \<open>agents.get(agent_type)\<close> is \<open>None\<close> for a missing key, and a class is never falsy,
  so \<open>not agent_class\<close> holds exactly when the key is missing.
\<close>

definition create_agent :: "string \<Rightarrow> 'a \<Rightarrow> 'n \<Rightarrow> error + ('a, 'n) agent" where
  "create_agent agent_type agent_config network_config =
     (case map_of agents agent_type of
        None \<Rightarrow> Inl (TensorForceValueError (''No such agent: '' @ agent_type))
      | Some agent_class \<Rightarrow> Inr (Agent agent_class agent_config network_config))"

definition get_default_config ::
  "(agent_class \<Rightarrow> 'c) \<Rightarrow> (agent_class \<Rightarrow> 'v) \<Rightarrow> ('v \<Rightarrow> 'c) \<Rightarrow> string
    \<Rightarrow> error + ('c Config \<times> 'c Config)" where
  "get_default_config default_config value_function_ref vf_default_config agent_type =
     (case map_of agents agent_type of
        None \<Rightarrow> Inl (TensorForceValueError (''No such agent: '' @ agent_type))
      | Some agent_class \<Rightarrow>
          Inr (Config (default_config agent_class),
               Config (vf_default_config (value_function_ref agent_class))))"

section \<open>The tuning worker: \<open>tune.py\<close>\<close>

subsection \<open>The sampled configuration\<close>

text \<open>
  \<open>config\<close> is the dictionary of one sample of the space that \<open>get_configspace\<close>
  declares. The field types are the declared ones: integer and float hyperparameters,
  and categorical ones as the strings the code compares them with. The three
  hyperparameters under a condition are missing from the dictionary when the condition
  fails, so they are optional and reading a missing one raises \<open>KeyError\<close>.
\<close>

record config =
  batch_size :: int
  frequency :: real
  learning_rate :: real
  horizon :: int
  discount :: real
  ratio_based :: string
  baseline :: string
  baseline_weight :: "real option"
  baseline_learning_rate :: "real option"
  estimate_advantage :: "string option"
  entropy_regularization :: real

definition getitem :: "string \<Rightarrow> 'a option \<Rightarrow> error + 'a" where
  "getitem key v = (case v of None \<Rightarrow> Inl (KeyError key) | Some x \<Rightarrow> Inr x)"

subsection \<open>Assembling the agent configuration\<close>

definition update_frequency :: "config \<Rightarrow> int" where
  "update_frequency config =
     max 1 (py_int (frequency config * of_int (batch_size config)))"

definition update :: "config \<Rightarrow> pyval" where
  "update config =
     PDict [(''unit'', PStr ''episodes''), (''batch_size'', PInt (batch_size config)),
            (''frequency'', PInt (update_frequency config))]"

definition policy :: pyval where
  "policy =
     PDict [(''network'',
       PDict [(''type'', PStr ''auto''), (''size'', PInt 64), (''depth'', PInt 2),
              (''rnn'', PBool False)])]"

definition optimizer :: "config \<Rightarrow> pyval" where
  "optimizer config =
     PDict [(''type'', PStr ''adam''), (''learning_rate'', PFloat (learning_rate config))]"

definition objective :: "config \<Rightarrow> pyval" where
  "objective config =
     (if ratio_based config = ''yes''
      then PDict [(''type'', PStr ''policy_gradient''), (''ratio_based'', PBool True),
                  (''clipping_value'', PFloat (2 / 10))]
      else PDict [(''type'', PStr ''policy_gradient''), (''ratio_based'', PBool False),
                  (''clipping_value'', PFloat (2 / 10))])"

text \<open>
  The branch on \<open>config['baseline']\<close>. Its result is the six local variables it binds:
  \<open>predict_horizon_values\<close>, \<open>estimate_advantage\<close>, \<open>predict_action_values\<close>,
  \<open>baseline_policy\<close>, \<open>baseline_optimizer\<close> and \<open>baseline_objective\<close>.
\<close>

definition baseline_branch ::
  "config \<Rightarrow> error + (pyval \<times> pyval \<times> pyval \<times> pyval \<times> pyval \<times> pyval)" where
  "baseline_branch config =
     (if baseline config = ''no'' then
        Inr (PBool False, PBool False, PBool False, PNone, PNone, PNone)
      else if baseline config = ''same'' then
        (case getitem ''estimate_advantage'' (estimate_advantage config) of
           Inl e \<Rightarrow> Inl e
         | Inr ea \<Rightarrow>
            (case getitem ''baseline_weight'' (baseline_weight config) of
               Inl e \<Rightarrow> Inl e
             | Inr bw \<Rightarrow>
                 Inr (PStr ''early'', PBool (ea = ''yes''), PBool False, PNone, PFloat bw,
                      PDict [(''type'', PStr ''value''), (''value'', PStr ''state'')])))
      else if baseline config = ''yes'' then
        (case getitem ''estimate_advantage'' (estimate_advantage config) of
           Inl e \<Rightarrow> Inl e
         | Inr ea \<Rightarrow>
            (case getitem ''baseline_learning_rate'' (baseline_learning_rate config) of
               Inl e \<Rightarrow> Inl e
             | Inr blr \<Rightarrow>
                 Inr (PStr ''early'', PBool (ea = ''yes''), PBool False,
                      PDict [(''network'',
                        PDict [(''type'', PStr ''auto''), (''size'', PInt 64),
                               (''depth'', PInt 2), (''rnn'', PBool False)])],
                      PDict [(''type'', PStr ''adam''), (''learning_rate'', PFloat blr)],
                      PDict [(''type'', PStr ''value''), (''value'', PStr ''state'')])))
      else Inl AssertionError)"

definition clamped_entropy_regularization :: "config \<Rightarrow> real" where
  "clamped_entropy_regularization config =
     (if entropy_regularization config < 3 / 100000 then 0
      else entropy_regularization config)"

text \<open>The dictionary \<open>agent\<close>, or the exception raised before it is built.\<close>

definition agent_config :: "config \<Rightarrow> error + pyval" where
  "agent_config config =
     (case baseline_branch config of
        Inl e \<Rightarrow> Inl e
      | Inr (predict_horizon_values, estimate_advantage', predict_action_values,
             baseline_policy, baseline_optimizer, baseline_objective) \<Rightarrow>
          Inr (PDict
            [(''policy'', policy), (''memory'', PStr ''recent''), (''update'', update config),
             (''optimizer'', optimizer config), (''objective'', objective config),
             (''reward_estimation'',
                PDict [(''horizon'', PInt (horizon config)),
                       (''discount'', PFloat (discount config)),
                       (''predict_horizon_values'', predict_horizon_values),
                       (''estimate_advantage'', estimate_advantage'),
                       (''predict_action_values'', predict_action_values)]),
             (''baseline_policy'', baseline_policy),
             (''baseline_optimizer'', baseline_optimizer),
             (''baseline_objective'', baseline_objective),
             (''entropy_regularization'',
                PFloat (clamped_entropy_regularization config))]))"

subsection \<open>The repetitions\<close>

text \<open>
  \<open>Runner\<close> belongs to \<open>tensorforce.execution\<close>, outside the sources at hand. What the
  worker does to it is recorded as a trace of calls with their arguments; what it
  reports is a parameter: \<open>episode_rewards n\<close> is the sequence
  \<open>runner.episode_rewards\<close> of the runner built in repetition \<open>n\<close>, read after its run.
\<close>

record 'env worker =
  environment :: 'env
  max_episode_timesteps :: "int option"

datatype 'env event =
    Runner_init pyval 'env "int option"
  | Runner_run nat bool
  | Runner_close

record 'env loop_state =
  final_reward :: "pyfloat list"
  max_reward :: "pyfloat list"
  rewards :: "pyfloat list list"
  trace :: "'env event list"

text \<open>\<open>np.mean(episode_rewards[-20:])\<close>: the slice is the whole list when it is short.\<close>

definition last_mean :: "pyfloat list \<Rightarrow> pyfloat" where
  "last_mean episode_rewards =
     np_mean (drop (length episode_rewards - 20) episode_rewards)"

text \<open>
  The list \<open>average_rewards\<close>: one mean for each \<open>n\<close> in
  \<open>range(len(episode_rewards) - 20)\<close>, an empty range when the list is short.
\<close>

definition average_rewards :: "pyfloat list \<Rightarrow> pyfloat list" where
  "average_rewards episode_rewards =
     map (\<lambda>n. np_mean (take 20 (drop n episode_rewards)))
       [0 ..< length episode_rewards - 20]"

text \<open>One pass through the body of the loop, stopping at the exception if one is raised.\<close>

definition repetition ::
  "(nat \<Rightarrow> pyfloat list) \<Rightarrow> pyval \<Rightarrow> 'env worker \<Rightarrow> nat \<Rightarrow> 'env loop_state
    \<Rightarrow> error option \<times> 'env loop_state" where
  "repetition episode_rewards agent self n s =
     (let s1 = s\<lparr>trace := trace s @
                 [Runner_init agent (environment self) (max_episode_timesteps self),
                  Runner_run 200 False, Runner_close]\<rparr>;
          s2 = s1\<lparr>final_reward := final_reward s1 @ [last_mean (episode_rewards n)]\<rparr>
      in case np_amax (average_rewards (episode_rewards n)) of
           Inl e \<Rightarrow> (Some e, s2)
         | Inr m \<Rightarrow>
             (None, s2\<lparr>max_reward := max_reward s2 @ [m],
                       rewards := rewards s2 @ [episode_rewards n]\<rparr>))"

fun repetitions ::
  "(nat \<Rightarrow> pyfloat list) \<Rightarrow> pyval \<Rightarrow> 'env worker \<Rightarrow> nat list \<Rightarrow> 'env loop_state
    \<Rightarrow> error option \<times> 'env loop_state" where
  "repetitions episode_rewards agent self [] s = (None, s)"
| "repetitions episode_rewards agent self (n # ns) s =
     (case repetition episode_rewards agent self n s of
        (Some e, s') \<Rightarrow> (Some e, s')
      | (None, s') \<Rightarrow> repetitions episode_rewards agent self ns s')"

definition empty_lists :: "'env loop_state" where
  "empty_lists = \<lparr>final_reward = [], max_reward = [], rewards = [], trace = []\<rparr>"

text \<open>The loop \<open>for n in range(round(budget))\<close>, from the empty lists.\<close>

definition run_repetitions ::
  "(nat \<Rightarrow> pyfloat list) \<Rightarrow> pyval \<Rightarrow> 'env worker \<Rightarrow> real
    \<Rightarrow> error option \<times> 'env loop_state" where
  "run_repetitions episode_rewards agent self budget =
     repetitions episode_rewards agent self [0 ..< nat (py_round budget)] empty_lists"

subsection \<open>\<open>TensorforceWorker.compute\<close>\<close>

record result =
  loss :: pyfloat
  info_rewards :: "pyfloat list list"

text \<open>
  The value returned or the exception raised, together with the calls made on runners.
\<close>

definition compute ::
  "(nat \<Rightarrow> pyfloat list) \<Rightarrow> 'env worker \<Rightarrow> 'i \<Rightarrow> config \<Rightarrow> real \<Rightarrow> 'w
    \<Rightarrow> (error + result) \<times> 'env event list" where
  "compute episode_rewards self config_id config budget working_directory =
     (case agent_config config of
        Inl e \<Rightarrow> (Inl e, [])
      | Inr agent \<Rightarrow>
         (case run_repetitions episode_rewards agent self budget of
            (Some e, s) \<Rightarrow> (Inl e, trace s)
          | (None, s) \<Rightarrow>
              (let mean_final_reward = np_mean (final_reward s);
                   mean_max_reward = np_mean (max_reward s);
                   loss = fsub (fneg mean_final_reward) mean_max_reward
               in (Inr \<lparr>loss = loss, info_rewards = rewards s\<rparr>, trace s))))"

section \<open>Notions used to state the properties\<close>

text \<open>
  The calls one repetition makes on its runner: the constructor with the agent
  configuration, the worker's environment and its step limit, then \<open>run\<close> with
  \<open>num_episodes=200\<close> and \<open>use_tqdm=False\<close>, then \<open>close\<close>.
\<close>

definition runner_calls :: "pyval \<Rightarrow> 'env worker \<Rightarrow> 'env event list" where
  "runner_calls agent self =
     [Runner_init agent (environment self) (max_episode_timesteps self),
      Runner_run 200 False, Runner_close]"

text \<open>\<open>agent['update']['frequency']\<close> and
  \<open>agent['reward_estimation']['predict_action_values']\<close>.\<close>

definition frequency_of :: "pyval \<Rightarrow> pyval option" where
  "frequency_of agent = Option.bind (item agent ''update'') (\<lambda>u. item u ''frequency'')"

definition predict_action_values_of :: "pyval \<Rightarrow> pyval option" where
  "predict_action_values_of agent =
     Option.bind (item agent ''reward_estimation'') (\<lambda>r. item r ''predict_action_values'')"

text \<open>
  As the specification words it: the windowed mean reward of all 20-episode sliding
  windows of an episode reward sequence, that is, of every run of 20 consecutive
  episodes. A sequence of \<open>k \<ge> 20\<close> episodes has \<open>k - 19\<close> of them, starting at the
  positions \<open>0, ..., k - 20\<close>.
\<close>

definition spec_window_means :: "pyfloat list \<Rightarrow> pyfloat list" where
  "spec_window_means episode_rewards =
     map (\<lambda>n. np_mean (take 20 (drop n episode_rewards)))
       [0 ..< length episode_rewards + 1 - 20]"

section \<open>Concrete inputs\<close>

text \<open>
  Three samples of the configuration space, one for each baseline mode, a sample with a
  baseline mode outside the space, and the agent configurations of the first two.
\<close>

definition sample_no :: config where
  "sample_no =
     \<lparr>batch_size = 10, frequency = 1 / 2, learning_rate = 1 / 1000, horizon = 10,
      discount = 99 / 100, ratio_based = ''yes'', baseline = ''no'',
      baseline_weight = None, baseline_learning_rate = None, estimate_advantage = None,
      entropy_regularization = 2 / 100000\<rparr>"

definition sample_same :: config where
  "sample_same =
     \<lparr>batch_size = 1, frequency = 1 / 100, learning_rate = 1 / 1000, horizon = 10,
      discount = 99 / 100, ratio_based = ''no'', baseline = ''same'',
      baseline_weight = Some 2, baseline_learning_rate = None,
      estimate_advantage = Some ''yes'', entropy_regularization = 5 / 100000\<rparr>"

definition sample_yes :: config where
  "sample_yes =
     \<lparr>batch_size = 1, frequency = 1 / 100, learning_rate = 1 / 1000, horizon = 10,
      discount = 99 / 100, ratio_based = ''no'', baseline = ''yes'',
      baseline_weight = None, baseline_learning_rate = Some (1 / 100),
      estimate_advantage = Some ''no'', entropy_regularization = 5 / 100000\<rparr>"

definition sample_other :: config where
  "sample_other = sample_no\<lparr>baseline := ''maybe''\<rparr>"

definition sample_no_agent :: pyval where
  "sample_no_agent =
     PDict
       [(''policy'', policy), (''memory'', PStr ''recent''),
        (''update'', PDict [(''unit'', PStr ''episodes''), (''batch_size'', PInt 10),
                            (''frequency'', PInt 5)]),
        (''optimizer'', PDict [(''type'', PStr ''adam''), (''learning_rate'', PFloat (1 / 1000))]),
        (''objective'', PDict [(''type'', PStr ''policy_gradient''), (''ratio_based'', PBool True),
                  (''clipping_value'', PFloat (2 / 10))]),
        (''reward_estimation'',
           PDict [(''horizon'', PInt 10), (''discount'', PFloat (99 / 100)),
                  (''predict_horizon_values'', PBool False),
                  (''estimate_advantage'', PBool False),
                  (''predict_action_values'', PBool False)]),
        (''baseline_policy'', PNone), (''baseline_optimizer'', PNone),
        (''baseline_objective'', PNone), (''entropy_regularization'', PFloat 0)]"

definition sample_same_agent :: pyval where
  "sample_same_agent =
     PDict
       [(''policy'', policy), (''memory'', PStr ''recent''),
        (''update'', PDict [(''unit'', PStr ''episodes''), (''batch_size'', PInt 1),
                            (''frequency'', PInt 1)]),
        (''optimizer'', PDict [(''type'', PStr ''adam''), (''learning_rate'', PFloat (1 / 1000))]),
        (''objective'', PDict [(''type'', PStr ''policy_gradient''), (''ratio_based'', PBool False),
                  (''clipping_value'', PFloat (2 / 10))]),
        (''reward_estimation'',
           PDict [(''horizon'', PInt 10), (''discount'', PFloat (99 / 100)),
                  (''predict_horizon_values'', PStr ''early''),
                  (''estimate_advantage'', PBool True),
                  (''predict_action_values'', PBool False)]),
        (''baseline_policy'', PNone), (''baseline_optimizer'', PFloat 2),
        (''baseline_objective'', PDict [(''type'', PStr ''value''), (''value'', PStr ''state'')]),
        (''entropy_regularization'', PFloat (5 / 100000))]"

definition sample_worker :: "string worker" where
  "sample_worker = \<lparr>environment = ''CartPole-v1'', max_episode_timesteps = None\<rparr>"

text \<open>A run of 200 episodes whose reward is 0 for 180 episodes and 1 for the last 20.\<close>

definition rising_tail :: "pyfloat list" where
  "rising_tail = replicate 180 (Num 0) @ replicate 20 (Num 1)"

text \<open>Class attributes to run \<open>get_default_config\<close> with.\<close>

definition stub_default_config :: "agent_class \<Rightarrow> pyval" where
  "stub_default_config c =
     (case c of RandomAgent \<Rightarrow> PDict [] | DQNAgent \<Rightarrow> PDict [(''batch_size'', PInt 100)])"

definition stub_vf_default_config :: "agent_class \<Rightarrow> pyval" where
  "stub_vf_default_config c =
     (case c of RandomAgent \<Rightarrow> PDict [(''tau'', PInt 0)]
      | DQNAgent \<Rightarrow> PDict [(''tau'', PInt 1)])"

section \<open>The agent registry\<close>

lemma map_of_agents:
  "map_of agents t =
     (if t = ''RandomAgent'' then Some RandomAgent
      else if t = ''DQNAgent'' then Some DQNAgent else None)"
  by (simp add: agents_def)

lemma create_agent_cases:
  "create_agent t a n =
     (if t = ''RandomAgent'' then Inr (Agent RandomAgent a n)
      else if t = ''DQNAgent'' then Inr (Agent DQNAgent a n)
      else Inl (TensorForceValueError (''No such agent: '' @ t)))"
  by (simp add: create_agent_def map_of_agents)

text \<open>
  C1: for every string \<open>agent_type\<close>, \<open>create_agent\<close> raises exactly when the string is
  neither \<open>'RandomAgent'\<close> nor \<open>'DQNAgent'\<close>, and what it raises is
  \<open>TensorForceValueError\<close>; for each of the two registered names it returns the
  instance of the corresponding class built from the two configurations supplied.
\<close>

theorem create_agent_registry:
  "((\<exists>e. create_agent t a n = Inl e) \<longleftrightarrow> t \<notin> {''RandomAgent'', ''DQNAgent''})
   \<and> (t \<notin> {''RandomAgent'', ''DQNAgent''} \<longrightarrow>
        create_agent t a n = Inl (TensorForceValueError (''No such agent: '' @ t)))
   \<and> (t = ''RandomAgent'' \<longrightarrow> create_agent t a n = Inr (Agent RandomAgent a n))
   \<and> (t = ''DQNAgent'' \<longrightarrow> create_agent t a n = Inr (Agent DQNAgent a n))"
  by (simp add: create_agent_cases)

theorem create_agent_registry_witness:
  "create_agent ''RandomAgent'' (PDict []) (PDict []) = Inr (Agent RandomAgent (PDict []) (PDict []))
   \<and> create_agent ''DQNAgent'' (PDict []) (PDict []) = Inr (Agent DQNAgent (PDict []) (PDict []))
   \<and> create_agent ''PPOAgent'' (PDict []) (PDict [])
        = Inl (TensorForceValueError ''No such agent: PPOAgent'')"
  using create_agent_registry [of "''RandomAgent''" "PDict []" "PDict []"]
    create_agent_registry [of "''DQNAgent''" "PDict []" "PDict []"]
    create_agent_registry [of "''PPOAgent''" "PDict []" "PDict []"]
  by simp

text \<open>
  C7: for each registered name \<open>get_default_config\<close> returns the pair of the class's
  \<open>default_config\<close> and the \<open>default_config\<close> of the class's \<open>value_function_ref\<close>,
  each wrapped in \<open>Config\<close>; for any other name it raises the same
  \<open>TensorForceValueError\<close> as \<open>create_agent\<close>, and the two functions raise on the same
  names.
\<close>

theorem get_default_config_registry:
  "(t \<notin> {''RandomAgent'', ''DQNAgent''} \<longrightarrow>
      get_default_config dc vf vdc t = Inl (TensorForceValueError (''No such agent: '' @ t)))
   \<and> (t = ''RandomAgent'' \<longrightarrow>
        get_default_config dc vf vdc t =
          Inr (Config (dc RandomAgent), Config (vdc (vf RandomAgent))))
   \<and> (t = ''DQNAgent'' \<longrightarrow>
        get_default_config dc vf vdc t =
          Inr (Config (dc DQNAgent), Config (vdc (vf DQNAgent))))
   \<and> (\<forall>e. get_default_config dc vf vdc t = Inl e \<longleftrightarrow> create_agent t a n = Inl e)"
  by (auto simp: get_default_config_def create_agent_def map_of_agents)

theorem get_default_config_registry_witness:
  "get_default_config stub_default_config id stub_vf_default_config ''RandomAgent''
     = Inr (Config (PDict []), Config (PDict [(''tau'', PInt 0)]))
   \<and> get_default_config stub_default_config id stub_vf_default_config ''DQNAgent''
     = Inr (Config (PDict [(''batch_size'', PInt 100)]), Config (PDict [(''tau'', PInt 1)]))
   \<and> get_default_config stub_default_config id stub_vf_default_config ''PPOAgent''
     = Inl (TensorForceValueError ''No such agent: PPOAgent'')
   \<and> create_agent ''PPOAgent'' (PDict []) (PDict [])
     = (Inl (TensorForceValueError ''No such agent: PPOAgent'')
         :: error + (pyval, pyval) agent)"
  using
    get_default_config_registry [of "''RandomAgent''" stub_default_config id
      stub_vf_default_config "PDict []" "PDict []"]
    get_default_config_registry [of "''DQNAgent''" stub_default_config id
      stub_vf_default_config "PDict []" "PDict []"]
    get_default_config_registry [of "''PPOAgent''" stub_default_config id
      stub_vf_default_config "PDict []" "PDict []"]
  by (auto simp: stub_default_config_def stub_vf_default_config_def)

section \<open>The agent configuration\<close>

lemma max_py_int: "max 1 (py_int x) = max 1 \<lfloor>x\<rfloor>"
proof (cases "0 \<le> x")
  case True
  then show ?thesis by (simp add: py_int_def)
next
  case False
  then have "\<lceil>x\<rceil> \<le> 0" and "\<lfloor>x\<rfloor> \<le> 0"
    by (simp_all add: ceiling_le_iff floor_le_iff)
  with False show ?thesis by (simp add: py_int_def)
qed

lemma agent_config_items:
  assumes "agent_config config = Inr agent"
  shows "item agent ''update'' = Some (update config)"
    and "item agent ''entropy_regularization''
           = Some (PFloat (clamped_entropy_regularization config))"
    and "\<exists>phv ea. item agent ''reward_estimation'' =
           Some (PDict [(''horizon'', PInt (horizon config)),
                        (''discount'', PFloat (discount config)),
                        (''predict_horizon_values'', phv),
                        (''estimate_advantage'', ea),
                        (''predict_action_values'', PBool False)])"
  using assms
  by (auto simp: agent_config_def baseline_branch_def getitem_def
      split: sum.splits if_splits option.splits)

lemma agent_config_sample_no: "agent_config sample_no = Inr sample_no_agent"
  by (simp add: agent_config_def baseline_branch_def sample_no_def update_def
      update_frequency_def py_int_def optimizer_def objective_def
      clamped_entropy_regularization_def sample_no_agent_def)

lemma agent_config_sample_same: "agent_config sample_same = Inr sample_same_agent"
  by (simp add: agent_config_def baseline_branch_def sample_same_def update_def
      update_frequency_def py_int_def optimizer_def objective_def getitem_def
      clamped_entropy_regularization_def sample_same_agent_def)

text \<open>
  C5: the update frequency is \<open>max(1, floor(frequency * batch_size))\<close>, also where the
  product is negative and \<open>int\<close> rounds it up; this is the value under
  \<open>agent['update']['frequency']\<close>. With \<open>frequency = 0.5\<close> and \<open>batch_size = 10\<close> it
  is 5, with \<open>frequency = 0.01\<close> and \<open>batch_size = 1\<close> it is 1.
\<close>

theorem update_frequency_floor:
  "update_frequency config = max 1 \<lfloor>frequency config * of_int (batch_size config)\<rfloor>
   \<and> (\<forall>agent. agent_config config = Inr agent \<longrightarrow>
         frequency_of agent =
           Some (PInt (max 1 \<lfloor>frequency config * of_int (batch_size config)\<rfloor>)))
   \<and> (frequency config = 1 / 2 \<and> batch_size config = 10 \<longrightarrow> update_frequency config = 5)
   \<and> (frequency config = 1 / 100 \<and> batch_size config = 1 \<longrightarrow> update_frequency config = 1)"
proof -
  have general:
    "update_frequency config = max 1 \<lfloor>frequency config * of_int (batch_size config)\<rfloor>"
    by (simp add: update_frequency_def max_py_int)
  have in_agent: "frequency_of agent = Some (PInt (update_frequency config))"
    if "agent_config config = Inr agent" for agent
    using agent_config_items(1) [OF that] by (simp add: frequency_of_def update_def)
  have five: "update_frequency config = 5"
    if "frequency config = 1 / 2 \<and> batch_size config = 10"
  proof -
    from that have f: "frequency config = 1 / 2" and b: "batch_size config = 10"
      by blast+
    show ?thesis unfolding general f b by simp
  qed
  have one: "update_frequency config = 1"
    if "frequency config = 1 / 100 \<and> batch_size config = 1"
  proof -
    from that have f: "frequency config = 1 / 100" and b: "batch_size config = 1"
      by blast+
    show ?thesis unfolding general f b by simp
  qed
  from general in_agent five one show ?thesis by metis
qed

theorem update_frequency_floor_witness:
  "update_frequency sample_no = 5 \<and> update_frequency sample_same = 1
   \<and> (\<exists>agent. agent_config sample_no = Inr agent \<and> frequency_of agent = Some (PInt 5))"
  using update_frequency_floor [of sample_no] update_frequency_floor [of sample_same]
  by (simp add: agent_config_sample_no sample_no_agent_def frequency_of_def)
    (simp add: sample_no_def sample_same_def)

text \<open>
  C6: the value under \<open>agent['entropy_regularization']\<close> is 0.0 when
  \<open>config['entropy_regularization']\<close> is strictly below \<open>3e-5\<close> and is
  \<open>config['entropy_regularization']\<close> itself otherwise: \<open>2e-5\<close> gives 0.0 and
  \<open>5e-5\<close> gives \<open>5e-5\<close>.
\<close>

theorem entropy_regularization_clamp:
  "(\<forall>agent. agent_config config = Inr agent \<longrightarrow>
      item agent ''entropy_regularization'' =
        Some (PFloat (if entropy_regularization config < 3 / 100000 then 0
                      else entropy_regularization config)))
   \<and> (entropy_regularization config = 2 / 100000 \<longrightarrow>
        clamped_entropy_regularization config = 0)
   \<and> (entropy_regularization config = 5 / 100000 \<longrightarrow>
        clamped_entropy_regularization config = 5 / 100000)"
  using agent_config_items(2) [of config]
  by (simp add: clamped_entropy_regularization_def)

theorem entropy_regularization_clamp_witness:
  "(\<exists>agent. agent_config sample_no = Inr agent
      \<and> item agent ''entropy_regularization'' = Some (PFloat 0))
   \<and> (\<exists>agent. agent_config sample_same = Inr agent
      \<and> item agent ''entropy_regularization'' = Some (PFloat (5 / 100000)))"
  using entropy_regularization_clamp [of sample_no]
    entropy_regularization_clamp [of sample_same]
  by (simp add: agent_config_sample_no agent_config_sample_same sample_no_agent_def
      sample_same_agent_def)

text \<open>
  C4: the branch on \<open>config['baseline']\<close> handles exactly \<open>'no'\<close>, \<open>'same'\<close> and
  \<open>'yes'\<close>, each with its own values for the six variables. For any other value the
  assertion fails, no agent configuration is built and \<open>compute\<close> raises
  \<open>AssertionError\<close> without having touched a runner; the assertion fails for no value
  among the three.
\<close>

theorem baseline_branch_exhaustive:
  "(baseline config \<notin> {''no'', ''same'', ''yes''} \<longrightarrow>
      baseline_branch config = Inl AssertionError
      \<and> agent_config config = Inl AssertionError
      \<and> compute episode_rewards self config_id config budget working_directory
          = (Inl AssertionError, []))
   \<and> (baseline_branch config = Inl AssertionError \<longrightarrow>
        baseline config \<notin> {''no'', ''same'', ''yes''})
   \<and> (baseline config = ''no'' \<longrightarrow>
        baseline_branch config =
          Inr (PBool False, PBool False, PBool False, PNone, PNone, PNone))
   \<and> (\<forall>ea bw. baseline config = ''same'' \<and> estimate_advantage config = Some ea
          \<and> baseline_weight config = Some bw \<longrightarrow>
        baseline_branch config =
          Inr (PStr ''early'', PBool (ea = ''yes''), PBool False, PNone, PFloat bw,
               PDict [(''type'', PStr ''value''), (''value'', PStr ''state'')]))
   \<and> (\<forall>ea blr. baseline config = ''yes'' \<and> estimate_advantage config = Some ea
          \<and> baseline_learning_rate config = Some blr \<longrightarrow>
        baseline_branch config =
          Inr (PStr ''early'', PBool (ea = ''yes''), PBool False,
               PDict [(''network'',
                 PDict [(''type'', PStr ''auto''), (''size'', PInt 64),
                        (''depth'', PInt 2), (''rnn'', PBool False)])],
               PDict [(''type'', PStr ''adam''), (''learning_rate'', PFloat blr)],
               PDict [(''type'', PStr ''value''), (''value'', PStr ''state'')]))"
proof -
  have other: "baseline_branch config = Inl AssertionError"
    if "baseline config \<notin> {''no'', ''same'', ''yes''}"
    using that by (simp add: baseline_branch_def)
  have only: "baseline config \<notin> {''no'', ''same'', ''yes''}"
    if "baseline_branch config = Inl AssertionError"
    using that
    by (auto simp: baseline_branch_def getitem_def split: if_splits option.splits)
  have no: "baseline_branch config =
      Inr (PBool False, PBool False, PBool False, PNone, PNone, PNone)"
    if "baseline config = ''no''"
    using that by (simp add: baseline_branch_def)
  have same: "baseline_branch config =
      Inr (PStr ''early'', PBool (ea = ''yes''), PBool False, PNone, PFloat bw,
           PDict [(''type'', PStr ''value''), (''value'', PStr ''state'')])"
    if "baseline config = ''same'' \<and> estimate_advantage config = Some ea
        \<and> baseline_weight config = Some bw" for ea bw
    using that by (simp add: baseline_branch_def getitem_def)
  have yes: "baseline_branch config =
      Inr (PStr ''early'', PBool (ea = ''yes''), PBool False,
           PDict [(''network'',
             PDict [(''type'', PStr ''auto''), (''size'', PInt 64),
                    (''depth'', PInt 2), (''rnn'', PBool False)])],
           PDict [(''type'', PStr ''adam''), (''learning_rate'', PFloat blr)],
           PDict [(''type'', PStr ''value''), (''value'', PStr ''state'')])"
    if "baseline config = ''yes'' \<and> estimate_advantage config = Some ea
        \<and> baseline_learning_rate config = Some blr" for ea blr
    using that by (simp add: baseline_branch_def getitem_def)
  have raised: "agent_config config = Inl AssertionError
      \<and> compute episode_rewards self config_id config budget working_directory
          = (Inl AssertionError, [])"
    if "baseline config \<notin> {''no'', ''same'', ''yes''}"
    using other [OF that] by (simp add: agent_config_def compute_def)
  from other only no same yes raised show ?thesis by blast
qed

theorem baseline_branch_exhaustive_witness:
  "compute (\<lambda>n. rising_tail) sample_worker () sample_other 2 () = (Inl AssertionError, [])
   \<and> baseline_branch sample_no
       = Inr (PBool False, PBool False, PBool False, PNone, PNone, PNone)
   \<and> baseline_branch sample_same
       = Inr (PStr ''early'', PBool True, PBool False, PNone, PFloat 2,
              PDict [(''type'', PStr ''value''), (''value'', PStr ''state'')])
   \<and> baseline_branch sample_yes
       = Inr (PStr ''early'', PBool False, PBool False,
              PDict [(''network'',
                PDict [(''type'', PStr ''auto''), (''size'', PInt 64),
                       (''depth'', PInt 2), (''rnn'', PBool False)])],
              PDict [(''type'', PStr ''adam''), (''learning_rate'', PFloat (1 / 100))],
              PDict [(''type'', PStr ''value''), (''value'', PStr ''state'')])"
  using
    baseline_branch_exhaustive [of sample_other "\<lambda>n. rising_tail" sample_worker "()" 2 "()"]
    baseline_branch_exhaustive [of sample_no]
    baseline_branch_exhaustive [of sample_same]
    baseline_branch_exhaustive [of sample_yes]
  by (simp add: sample_other_def sample_no_def sample_same_def sample_yes_def)

text \<open>
  C9: when \<open>config['baseline']\<close> is \<open>'no'\<close>, the agent configuration does not depend
  on \<open>config['estimate_advantage']\<close>: setting the entry to any value, or removing it,
  leaves the result of the assembly unchanged, and \<open>estimate_advantage\<close> is \<open>False\<close>
  in it.
\<close>

theorem no_baseline_ignores_estimate_advantage:
  "baseline config = ''no'' \<Longrightarrow>
     agent_config (config\<lparr>estimate_advantage := v\<rparr>) = agent_config config
     \<and> (\<forall>agent. agent_config config = Inr agent \<longrightarrow>
          Option.bind (item agent ''reward_estimation'') (\<lambda>r. item r ''estimate_advantage'')
            = Some (PBool False))"
  by (simp add: agent_config_def baseline_branch_def update_def update_frequency_def
      optimizer_def objective_def clamped_entropy_regularization_def)

theorem no_baseline_ignores_estimate_advantage_witness:
  "agent_config (sample_no\<lparr>estimate_advantage := Some ''yes''\<rparr>) = Inr sample_no_agent
   \<and> agent_config (sample_no\<lparr>estimate_advantage := Some ''no''\<rparr>) = Inr sample_no_agent"
  using no_baseline_ignores_estimate_advantage [of sample_no "Some ''yes''"]
    no_baseline_ignores_estimate_advantage [of sample_no "Some ''no''"]
  by (simp add: agent_config_sample_no) (simp add: sample_no_def)

text \<open>
  C10: every agent configuration that is assembled comes from one of the three baseline
  modes and has \<open>reward_estimation.predict_action_values\<close> equal to \<open>False\<close>. In the
  three modes the assembly can only fail on a missing conditional hyperparameter.
\<close>

theorem predict_action_values_disabled:
  "(agent_config config = Inr agent \<longrightarrow>
      baseline config \<in> {''no'', ''same'', ''yes''}
      \<and> predict_action_values_of agent = Some (PBool False))
   \<and> (baseline config \<in> {''no'', ''same'', ''yes''} \<longrightarrow>
        (\<forall>e. agent_config config = Inl e \<longrightarrow> (\<exists>k. e = KeyError k)))"
proof -
  have a: "predict_action_values_of agent = Some (PBool False)"
    if "agent_config config = Inr agent"
    using agent_config_items(3) [OF that]
    by (auto simp: predict_action_values_of_def)
  have b: "baseline config \<in> {''no'', ''same'', ''yes''}"
    if "agent_config config = Inr agent"
    using that
    by (auto simp: agent_config_def baseline_branch_def split: sum.splits if_splits)
  have c: "\<exists>k. e = KeyError k"
    if "baseline config \<in> {''no'', ''same'', ''yes''}" and "agent_config config = Inl e"
    for e
    using that
    by (auto simp: agent_config_def baseline_branch_def getitem_def
        split: sum.splits if_splits option.splits)
  from a b c show ?thesis by blast
qed

theorem predict_action_values_disabled_witness:
  "predict_action_values_of sample_no_agent = Some (PBool False)
   \<and> predict_action_values_of sample_same_agent = Some (PBool False)"
  using predict_action_values_disabled [of sample_no sample_no_agent]
    predict_action_values_disabled [of sample_same sample_same_agent]
  by (simp add: agent_config_sample_no agent_config_sample_same)

section \<open>The repetitions and the loss\<close>

lemma np_amax_average_rewards:
  "20 < length rs \<Longrightarrow> \<exists>m. np_amax (average_rewards rs) = Inr m"
  by (cases "average_rewards rs") (simp_all add: average_rewards_def)

lemma repetition_returns:
  assumes "20 < length (er n)"
  shows "\<exists>s'. repetition er agent self n s = (None, s')
    \<and> trace s' = trace s @ runner_calls agent self
    \<and> final_reward s' = final_reward s @ [last_mean (er n)]
    \<and> map Inr (max_reward s') = map Inr (max_reward s) @ [np_amax (average_rewards (er n))]
    \<and> rewards s' = rewards s @ [er n]"
proof -
  from np_amax_average_rewards [OF assms] obtain m
    where "np_amax (average_rewards (er n)) = Inr m" ..
  then show ?thesis
    by (simp add: repetition_def runner_calls_def)
qed

lemma repetitions_return:
  assumes "\<forall>n \<in> set ns. 20 < length (er n)"
  shows "\<exists>s'. repetitions er agent self ns s = (None, s')
    \<and> trace s' = trace s @ concat (map (\<lambda>n. runner_calls agent self) ns)
    \<and> final_reward s' = final_reward s @ map (\<lambda>n. last_mean (er n)) ns
    \<and> map Inr (max_reward s')
        = map Inr (max_reward s) @ map (\<lambda>n. np_amax (average_rewards (er n))) ns
    \<and> rewards s' = rewards s @ map er ns"
  using assms
proof (induction ns arbitrary: s)
  case Nil
  then show ?case by simp
next
  case (Cons n ns)
  then have long: "20 < length (er n)" and rest: "\<forall>k \<in> set ns. 20 < length (er k)"
    by simp_all
  from long repetition_returns [where er = er and n = n and agent = agent and self = self and s = s] obtain s1 where
    s1: "repetition er agent self n s = (None, s1)"
      "trace s1 = trace s @ runner_calls agent self"
      "final_reward s1 = final_reward s @ [last_mean (er n)]"
      "map Inr (max_reward s1) = map Inr (max_reward s) @ [np_amax (average_rewards (er n))]"
      "rewards s1 = rewards s @ [er n]"
    by blast
  from Cons.IH [OF rest, of s1] obtain s2 where
    s2: "repetitions er agent self ns s1 = (None, s2)"
      "trace s2 = trace s1 @ concat (map (\<lambda>n. runner_calls agent self) ns)"
      "final_reward s2 = final_reward s1 @ map (\<lambda>n. last_mean (er n)) ns"
      "map Inr (max_reward s2)
        = map Inr (max_reward s1) @ map (\<lambda>n. np_amax (average_rewards (er n))) ns"
      "rewards s2 = rewards s1 @ map er ns"
    by blast
  have "repetitions er agent self (n # ns) s = (None, s2)"
    by (simp add: s1(1) s2(1))
  with s1 s2 show ?case by simp
qed

lemma run_repetitions_returns:
  assumes "\<forall>n < nat (py_round budget). 20 < length (er n)"
  shows "\<exists>s. run_repetitions er agent self budget = (None, s)
    \<and> trace s = concat (replicate (nat (py_round budget)) (runner_calls agent self))
    \<and> final_reward s = map (\<lambda>n. last_mean (er n)) [0 ..< nat (py_round budget)]
    \<and> map Inr (max_reward s)
        = map (\<lambda>n. np_amax (average_rewards (er n))) [0 ..< nat (py_round budget)]
    \<and> rewards s = map er [0 ..< nat (py_round budget)]"
proof -
  from assms have "\<forall>n \<in> set [0 ..< nat (py_round budget)]. 20 < length (er n)"
    by simp
  from this repetitions_return
    [where er = er and ns = "[0 ..< nat (py_round budget)]" and agent = agent
      and self = self and s = empty_lists]
  show ?thesis
    by (simp add: run_repetitions_def empty_lists_def map_replicate_const)
qed

lemma py_round_nonneg: "0 \<le> x \<Longrightarrow> 0 \<le> py_round x"
  by (auto simp: py_round_def Let_def)

lemma py_round_of_int: "py_round (of_int k) = k"
  by (simp add: py_round_def)

lemma py_round_two: "py_round 2 = 2"
  using py_round_of_int [of 2] by simp

lemma rising_tail_last_mean: "last_mean rising_tail = Num 1"
  unfolding rising_tail_def by code_simp

lemma rising_tail_amax: "np_amax (average_rewards rising_tail) = Inr (Num (19 / 20))"
  unfolding rising_tail_def by code_simp

lemma rising_tail_spec_windows: "np_amax (spec_window_means rising_tail) = Inr (Num 1)"
  unfolding rising_tail_def by code_simp

text \<open>
  The windows of \<open>average_rewards\<close> are all 20-episode windows but the last one, and the
  mean of that last window is the recorded final reward.
\<close>

lemma spec_window_means_split:
  assumes "20 \<le> length rs"
  shows "spec_window_means rs = average_rewards rs @ [last_mean rs]"
proof -
  from assms have "length rs + 1 - 20 = Suc (length rs - 20)"
    by simp
  then show ?thesis
    by (simp add: spec_window_means_def average_rewards_def last_mean_def)
qed

text \<open>
  C8: for a non-negative budget, an agent configuration that is assembled and runners
  that each report more than 20 episode rewards, \<open>compute\<close> returns after exactly
  \<open>round(budget)\<close> repetitions. Its calls on runners are, \<open>round(budget)\<close> times over:
  the constructor with the agent configuration and the worker's environment, \<open>run\<close>
  with 200 episodes and no progress display, and \<open>close\<close>. The lists \<open>final_reward\<close>,
  \<open>max_reward\<close> and \<open>rewards\<close> have \<open>round(budget)\<close> entries each.
\<close>

theorem compute_repetitions:
  assumes "0 \<le> budget"
    and "agent_config config = Inr agent"
    and "\<forall>n < nat (py_round budget). 20 < length (episode_rewards n)"
  shows "\<exists>s r. run_repetitions episode_rewards agent self budget = (None, s)
    \<and> compute episode_rewards self config_id config budget working_directory
        = (Inr r, concat (replicate (nat (py_round budget)) (runner_calls agent self)))
    \<and> int (length (final_reward s)) = py_round budget
    \<and> int (length (max_reward s)) = py_round budget
    \<and> int (length (rewards s)) = py_round budget
    \<and> info_rewards r = rewards s"
proof -
  from run_repetitions_returns [OF assms(3), of agent self] obtain s where
    s: "run_repetitions episode_rewards agent self budget = (None, s)"
      "trace s = concat (replicate (nat (py_round budget)) (runner_calls agent self))"
      "final_reward s = map (\<lambda>n. last_mean (episode_rewards n)) [0 ..< nat (py_round budget)]"
      "map Inr (max_reward s)
        = map (\<lambda>n. np_amax (average_rewards (episode_rewards n))) [0 ..< nat (py_round budget)]"
      "rewards s = map episode_rewards [0 ..< nat (py_round budget)]"
    by blast
  from assms(1) have n: "int (nat (py_round budget)) = py_round budget"
    by (simp add: py_round_nonneg)
  have "length (map Inr (max_reward s) :: (error + pyfloat) list) = nat (py_round budget)"
    unfolding s(4) by simp
  then have m: "length (max_reward s) = nat (py_round budget)"
    by simp
  have c: "compute episode_rewards self config_id config budget working_directory
      = (Inr \<lparr>loss = fsub (fneg (np_mean (final_reward s))) (np_mean (max_reward s)),
              info_rewards = rewards s\<rparr>, trace s)"
    by (simp add: compute_def assms(2) s(1))
  from s c n m show ?thesis by simp
qed

theorem compute_repetitions_witness:
  "\<exists>r. compute (\<lambda>n. rising_tail) sample_worker () sample_same 2 ()
      = (Inr r, runner_calls sample_same_agent sample_worker
                @ runner_calls sample_same_agent sample_worker)
     \<and> length (info_rewards r) = 2"
proof -
  have long: "\<forall>n < nat (py_round 2). 20 < length ((\<lambda>n. rising_tail) n)"
    by (simp add: rising_tail_def)
  have nonneg: "(0::real) \<le> 2"
    by simp
  have two: "replicate 2 x = [x, x]" for x :: "'a"
    by (simp add: numeral_2_eq_2)
  from compute_repetitions [OF nonneg agent_config_sample_same long, of sample_worker "()" "()"]
  show ?thesis
    by (auto simp: two py_round_two)
qed

text \<open>
  C3: under the same conditions the loss that \<open>compute\<close> returns is
  \<open>-mean(final_reward) - mean(max_reward)\<close> of the two lists collected in the
  repetitions, which hold one recorded final reward and one recorded maximum for each
  \<open>n\<close> in \<open>range(round(budget))\<close>.
\<close>

theorem compute_loss:
  assumes "agent_config config = Inr agent"
    and "\<forall>n < nat (py_round budget). 20 < length (episode_rewards n)"
  shows "\<exists>s r. run_repetitions episode_rewards agent self budget = (None, s)
    \<and> fst (compute episode_rewards self config_id config budget working_directory) = Inr r
    \<and> loss r = fsub (fneg (np_mean (final_reward s))) (np_mean (max_reward s))
    \<and> final_reward s
        = map (\<lambda>n. last_mean (episode_rewards n)) [0 ..< nat (py_round budget)]
    \<and> map Inr (max_reward s)
        = map (\<lambda>n. np_amax (average_rewards (episode_rewards n)))
            [0 ..< nat (py_round budget)]"
proof -
  from run_repetitions_returns [OF assms(2), of agent self] obtain s where
    s: "run_repetitions episode_rewards agent self budget = (None, s)"
      "final_reward s = map (\<lambda>n. last_mean (episode_rewards n)) [0 ..< nat (py_round budget)]"
      "map Inr (max_reward s)
        = map (\<lambda>n. np_amax (average_rewards (episode_rewards n))) [0 ..< nat (py_round budget)]"
    by blast
  have "compute episode_rewards self config_id config budget working_directory
      = (Inr \<lparr>loss = fsub (fneg (np_mean (final_reward s))) (np_mean (max_reward s)),
              info_rewards = rewards s\<rparr>, trace s)"
    by (simp add: compute_def assms(1) s(1))
  with s show ?thesis by simp
qed

theorem compute_loss_witness:
  "\<exists>r. fst (compute (\<lambda>n. rising_tail) sample_worker () sample_no 2 ()) = Inr r
     \<and> loss r = Num (- 39 / 20)"
proof -
  have long: "\<forall>n < nat (py_round 2). 20 < length ((\<lambda>n. rising_tail) n)"
    by (simp add: rising_tail_def)
  have two: "[0 ..< nat (py_round 2)] = [0, 1]"
    by (simp add: py_round_two upt_rec)
  from compute_loss [OF agent_config_sample_no long, of sample_worker "()" "()"]
  obtain s where "\<exists>r.
      run_repetitions (\<lambda>n. rising_tail) sample_no_agent sample_worker 2 = (None, s)
      \<and> fst (compute (\<lambda>n. rising_tail) sample_worker () sample_no 2 ()) = Inr r
      \<and> loss r = fsub (fneg (np_mean (final_reward s))) (np_mean (max_reward s))
      \<and> final_reward s = map (\<lambda>n. last_mean rising_tail) [0 ..< nat (py_round 2)]
      \<and> map Inr (max_reward s)
          = map (\<lambda>n. np_amax (average_rewards rising_tail)) [0 ..< nat (py_round 2)]" ..
  then obtain r where
    sr: "run_repetitions (\<lambda>n. rising_tail) sample_no_agent sample_worker 2 = (None, s)
      \<and> fst (compute (\<lambda>n. rising_tail) sample_worker () sample_no 2 ()) = Inr r
      \<and> loss r = fsub (fneg (np_mean (final_reward s))) (np_mean (max_reward s))
      \<and> final_reward s = map (\<lambda>n. last_mean rising_tail) [0 ..< nat (py_round 2)]
      \<and> map Inr (max_reward s)
          = map (\<lambda>n. np_amax (average_rewards rising_tail)) [0 ..< nat (py_round 2)]" ..
  from sr have f: "final_reward s = [Num 1, Num 1]"
    by (simp add: two rising_tail_last_mean)
  from sr have "map Inr (max_reward s)
      = [Inr (Num (19 / 20)), Inr (Num (19 / 20)) :: error + pyfloat]"
    by (simp add: two rising_tail_amax)
  then have m: "max_reward s = [Num (19 / 20), Num (19 / 20)]"
    by auto
  from sr have "loss r = Num (- 39 / 20)"
    by (simp add: f m np_mean_def)
  with sr show ?thesis
    by blast
qed

text \<open>
  C2: the recorded maximum is not the maximum over all 20-episode windows. For 180
  episodes of reward 0 followed by 20 episodes of reward 1 the repetition records the
  final reward 1 and the maximum 19/20, while the window of the last 20 episodes has the
  mean 1: \<open>range(len(episode_rewards) - 20)\<close> stops one window short, and the window
  left out is the one whose mean is the final reward.
\<close>

theorem max_reward_misses_last_window:
  "(\<exists>s. run_repetitions (\<lambda>n. rising_tail) (PDict []) sample_worker 1 = (None, s)
      \<and> final_reward s = [Num 1] \<and> max_reward s = [Num (19 / 20)])
   \<and> np_amax (spec_window_means rising_tail) = Inr (Num 1)
   \<and> spec_window_means rising_tail = average_rewards rising_tail @ [last_mean rising_tail]"
proof -
  have one: "[0 ..< nat (py_round 1)] = [0]"
    using py_round_of_int [of 1] by simp
  have "run_repetitions (\<lambda>n. rising_tail) (PDict []) sample_worker 1 =
      (None, \<lparr>final_reward = [Num 1], max_reward = [Num (19 / 20)],
              rewards = [rising_tail],
              trace = runner_calls (PDict []) sample_worker\<rparr>)"
    by (simp add: run_repetitions_def one repetition_def rising_tail_last_mean
        rising_tail_amax empty_lists_def runner_calls_def)
  then have code: "\<exists>s. run_repetitions (\<lambda>n. rising_tail) (PDict []) sample_worker 1 = (None, s)
      \<and> final_reward s = [Num 1] \<and> max_reward s = [Num (19 / 20)]"
    by simp
  have split: "spec_window_means rising_tail = average_rewards rising_tail @ [last_mean rising_tail]"
    by (rule spec_window_means_split) (simp add: rising_tail_def)
  from code rising_tail_spec_windows split show ?thesis
    by (intro conjI)
qed

end
